theory Spec2Isabelle
  imports Complex_Main
begin

section \<open>JavaScript string operations used by the voice pipeline\<close>

text \<open>
  Strings are lists of characters, read as the UTF-16 code units of ASCII text (the
  transcripts are en-US speech recognition results); characters outside ASCII are not
  modelled. \<open>toLowerCase\<close> maps the letters A to Z to a to z and leaves every other
  character alone; \<open>trim\<close> removes leading and trailing white space (tab, line feed,
  vertical tab, form feed, carriage return, space).
\<close>

definition toLowerChar :: "char \<Rightarrow> char" where
  "toLowerChar c =
     (case map_of (zip ''ABCDEFGHIJKLMNOPQRSTUVWXYZ'' ''abcdefghijklmnopqrstuvwxyz'') c of
        Some d \<Rightarrow> d
      | None \<Rightarrow> c)"

definition toLowerCase :: "string \<Rightarrow> string" where
  "toLowerCase s = map toLowerChar s"

definition isWhiteSpace :: "char \<Rightarrow> bool" where
  "isWhiteSpace c = (of_char c \<in> {9, 10, 11, 12, 13, 32 :: nat})"

definition trim :: "string \<Rightarrow> string" where
  "trim s = rev (dropWhile isWhiteSpace (rev (dropWhile isWhiteSpace s)))"

fun startsWith :: "string \<Rightarrow> string \<Rightarrow> bool" where
  "startsWith s [] = True"
| "startsWith [] (k # ks) = False"
| "startsWith (c # cs) (k # ks) = (c = k \<and> startsWith cs ks)"

text \<open>\<open>s.includes(k)\<close>: \<open>k\<close> occurs in \<open>s\<close> as a contiguous run of characters.\<close>

fun includesStr :: "string \<Rightarrow> string \<Rightarrow> bool" where
  "includesStr [] k = (k = [])"
| "includesStr (c # cs) k = (startsWith (c # cs) k \<or> includesStr cs k)"

text \<open>\<open>s.split(' ')\<close>: the pieces between single space characters, empty pieces kept.\<close>

fun split :: "char \<Rightarrow> string \<Rightarrow> string list" where
  "split d [] = [[]]"
| "split d (c # cs) =
     (if c = d then [] # split d cs
      else (case split d cs of
              [] \<Rightarrow> [[c]]
            | w # ws \<Rightarrow> (c # w) # ws))"

text \<open>
  \<open>n.toLocaleString()\<close> for a non-negative whole amount in the en-US locale: the decimal
  digits with a comma before every group of three. \<open>digitChar\<close> is only applied to
  \<open>n mod 10\<close> and to \<open>n < 10\<close>.
\<close>

definition digitChar :: "nat \<Rightarrow> char" where
  "digitChar d = ''0123456789'' ! d"

fun digits :: "nat \<Rightarrow> string" where
  "digits n = (if n < 10 then [digitChar n] else digits (n div 10) @ [digitChar (n mod 10)])"

declare digits.simps [simp del]

fun group3 :: "string \<Rightarrow> string" where
  "group3 (a # b # c # d # rest) = a # b # c # CHR '','' # group3 (d # rest)"
| "group3 xs = xs"

definition toLocaleString :: "nat \<Rightarrow> string" where
  "toLocaleString n = rev (group3 (rev (digits n)))"

section \<open>Command classifier\<close>

text \<open>
  The branches of the \<open>if\<close>/\<open>else if\<close> chain of \<open>processVoiceCommand\<close>, in the order the
  source tests them.
\<close>

datatype branch =
    StopSpeaking
  | Pipeline
  | Donations
  | BiggestDonor
  | Contacts
  | Calendar
  | Reports
  | FindJonathan
  | FindTakua
  | FindHong
  | FindDatz
  | Weather
  | DonationAdvice
  | GeneralQuestion
  | Help
  | Unrecognized

definition includesAny :: "string \<Rightarrow> string list \<Rightarrow> bool" where
  "includesAny s ks = list_ex (includesStr s) ks"

definition startsWithAny :: "string \<Rightarrow> string list \<Rightarrow> bool" where
  "startsWithAny s ks = list_ex (startsWith s) ks"

definition stopKeywords :: "string list" where
  "stopKeywords = [''stop'', ''stop talking'', ''shut up'', ''be quiet'']"

definition pipelineKeywords :: "string list" where
  "pipelineKeywords = [''sales'', ''funnel'', ''pipeline'']"

definition donationsKeywords :: "string list" where
  "donationsKeywords = [''donations'', ''quarter'', ''revenue'']"

definition biggestDonorKeywords :: "string list" where
  "biggestDonorKeywords =
     [''biggest donation'', ''biggest donor'', ''top donor'', ''largest donation'',
      ''biggest donor this quarter'', ''who is the biggest donor'']"

definition contactsKeywords :: "string list" where
  "contactsKeywords = [''contacts'', ''people'', ''customers'']"

definition calendarKeywords :: "string list" where
  "calendarKeywords = [''calendar'', ''meeting'', ''schedule'']"

definition reportsKeywords :: "string list" where
  "reportsKeywords = [''reports'', ''analytics'', ''data'']"

definition weatherKeywords :: "string list" where
  "weatherKeywords =
     [''weather'', ''temperature'', ''climate'', ''what's the weather'',
      ''how's the weather'', ''weather like'', ''weather in tokyo'',
      ''tokyo weather'', ''rain'', ''sunny'', ''cloudy'', ''forecast'']"

definition donationAdviceKeywords :: "string list" where
  "donationAdviceKeywords =
     [''donation advice'', ''how to get donations'', ''donation strategy'',
      ''increase donations'', ''get donations up'', ''donation tips'', ''fundraising advice'']"

definition questionPrefixes :: "string list" where
  "questionPrefixes =
     [''question'', ''ask'', ''what is'', ''how does'', ''explain'', ''tell me about'']"

definition helpKeywords :: "string list" where
  "helpKeywords = [''help'', ''what can you do'']"

definition classify :: "string \<Rightarrow> branch" where
  "classify lowerCommand =
     (if includesAny lowerCommand stopKeywords then StopSpeaking
      else if includesAny lowerCommand pipelineKeywords then Pipeline
      else if includesAny lowerCommand donationsKeywords then Donations
      else if includesAny lowerCommand biggestDonorKeywords then BiggestDonor
      else if includesAny lowerCommand contactsKeywords then Contacts
      else if includesAny lowerCommand calendarKeywords then Calendar
      else if includesAny lowerCommand reportsKeywords then Reports
      else if includesStr lowerCommand ''find'' \<and> includesStr lowerCommand ''jonathan'' then FindJonathan
      else if includesStr lowerCommand ''find'' \<and> includesStr lowerCommand ''takua'' then FindTakua
      else if includesStr lowerCommand ''find'' \<and> includesStr lowerCommand ''hong'' then FindHong
      else if includesStr lowerCommand ''find'' \<and> includesStr lowerCommand ''datz'' then FindDatz
      else if includesAny lowerCommand weatherKeywords then Weather
      else if includesAny lowerCommand donationAdviceKeywords then DonationAdvice
      else if startsWithAny lowerCommand questionPrefixes then GeneralQuestion
      else if includesAny lowerCommand helpKeywords then Help
      else Unrecognized)"

section \<open>Session state and effects\<close>

text \<open>
  The component's React state and refs as one record. A ref that holds an object is
  modelled by whether it is set. The two fields \<open>lastProcessedCommand\<close> and
  \<open>lastProcessedTimestamp\<close> are the ref's \<open>current\<close> value and the \<open>timestamp\<close> property
  the dispatcher attaches to the same ref object (\<open>None\<close> while it is not set, read as 0).
  A handler is a function from the session to the new session and the list of effects it
  issues, in order: calls of the props' callbacks, of browser and room APIs, and the
  asynchronous work it starts. The event loop runs the handlers one after the other.

  The state variables are constants of one render, and a handler is a closure created by
  some render: \<open>recognition.onresult\<close> by the render in which \<open>startAmbientListening\<close>
  ran, the room handlers by the render in which \<open>connectToRoom\<close> ran, and the functions
  they call (\<open>processVoiceCommand\<close>, \<open>speak\<close>, \<open>stopSpeaking\<close>, ...) by the same render. The
  state values such a closure reads are the ones of that render, whatever the state has
  become since; they are the handler's argument of type \<open>captured\<close>. A \<open>set...\<close> call
  writes the current session, and refs are read from and written to the current session.
\<close>

datatype connection_status = StatusDisconnected | StatusConnecting | StatusConnected

datatype avatar_state = Idle | Listening | Speaking | Thinking

record session =
  isConnected :: bool
  isListening :: bool
  transcript :: string
  isSpeaking :: bool
  connectionStatus :: connection_status
  error :: string
  avatarState :: avatar_state
  isProcessing :: bool
  isAmbientMode :: bool
  audioLevel :: nat
  isProcessingCommand :: bool
  hasIntroduced :: bool
  lastProcessedCommand :: string
  lastProcessedTimestamp :: "int option"
  stopSpeakingRef :: bool
  roomRef :: bool
  recognitionRef :: bool
  audioContextRef :: bool
  analyserRef :: bool
  animationFrameRef :: bool

text \<open>
  The state variables a modelled closure reads, with the values of the render that
  created it; \<open>capture s\<close> are the values held by a closure created while the state is
  \<open>s\<close>.
\<close>

record captured =
  capturedIsListening :: bool
  capturedIsSpeaking :: bool
  capturedIsProcessing :: bool
  capturedIsProcessingCommand :: bool

definition capture :: "session \<Rightarrow> captured" where
  "capture s =
     \<lparr>capturedIsListening = isListening s, capturedIsSpeaking = isSpeaking s,
      capturedIsProcessing = isProcessing s,
      capturedIsProcessingCommand = isProcessingCommand s\<rparr>"

text \<open>The globally cached biggest-donation fact, \<open>window.biggestDonationInfo\<close>.\<close>

record donation_info =
  donor :: string
  amount :: nat
  date :: string

text \<open>What the component reads from its props and from the browser.\<close>

record env =
  tenantId :: string
  biggestDonationInfo :: "donation_info option"
  speechSynthesisSupported :: bool
  voices :: "(string \<times> string) list"

datatype endpoint = WeatherEndpoint | DonationAdviceEndpoint | GeneralQuestionEndpoint

text \<open>
  The outcome of a \<open>fetch\<close> to one of the query proxies: a success response with the
  \<open>answer\<close> field of its body, a non-success response, or a thrown error.
\<close>

datatype fetch_result = ResponseOk string | ResponseNotOk | FetchThrew

text \<open>
  The callback a command hands to \<open>speak\<close>: the command, where to navigate afterwards
  and after how many milliseconds the duplicate check forgets the command.
\<close>

datatype on_end = NoCallback | CommandDone string "string option" nat

record utterance =
  utteranceText :: string
  utteranceVoice :: "(string \<times> string) option"

datatype effect =
    OnTranscript string
  | RecognitionStop
  | InvokeStopSpeakingRef
  | SynthesisCancel
  | SynthesisSpeak utterance on_end
  | QueryFetch endpoint string
  | SpeakWithOpenAI string on_end
  | OnEndCall on_end
  | PublishData string
  | ProcessAfterDelay nat string
  | CancelAnimationFrame
  | AudioContextClose
  | RoomDisconnectCall

section \<open>Speech output\<close>

text \<open>
  \<open>speak\<close> stops recognition when a recognition object exists and starts the hosted
  synthesis attempt, which runs asynchronously.
\<close>

definition speak :: "session \<Rightarrow> string \<Rightarrow> on_end \<Rightarrow> effect list" where
  "speak s text' onEnd =
     (if recognitionRef s then [RecognitionStop] else []) @ [SpeakWithOpenAI text' onEnd]"

definition stopSpeaking :: "env \<Rightarrow> captured \<Rightarrow> session \<Rightarrow> session \<times> effect list" where
  "stopSpeaking e c s =
     (let effs = (if stopSpeakingRef s then [InvokeStopSpeakingRef] else [])
                 @ (if speechSynthesisSupported e then [SynthesisCancel] else []);
          s1 = s\<lparr>stopSpeakingRef := False, isSpeaking := False\<rparr>;
          s2 = (if \<not> capturedIsListening c \<and> \<not> capturedIsProcessing c
                   \<and> \<not> capturedIsProcessingCommand c
                then s1\<lparr>avatarState := Idle\<rparr> else s1)
      in (s2, effs))"

section \<open>Command dispatcher\<close>

definition remoteEndpoint :: "branch \<Rightarrow> endpoint option" where
  "remoteEndpoint b =
     (case b of
        Weather \<Rightarrow> Some WeatherEndpoint
      | DonationAdvice \<Rightarrow> Some DonationAdviceEndpoint
      | GeneralQuestion \<Rightarrow> Some GeneralQuestionEndpoint
      | _ \<Rightarrow> None)"

definition remoteText :: "endpoint \<Rightarrow> fetch_result \<Rightarrow> string" where
  "remoteText ep r =
     (case r of
        ResponseOk answer \<Rightarrow> answer
      | ResponseNotOk \<Rightarrow>
          (case ep of
             WeatherEndpoint \<Rightarrow>
               ''I couldn't get the weather information right now. Please try again later!''
           | DonationAdviceEndpoint \<Rightarrow>
               ''I couldn't get donation advice right now. Please try again later!''
           | GeneralQuestionEndpoint \<Rightarrow>
               ''I couldn't answer that question right now. Please try again later!'')
      | FetchThrew \<Rightarrow>
          (case ep of
             WeatherEndpoint \<Rightarrow>
               ''I'm having trouble getting weather information. Please try again!''
           | DonationAdviceEndpoint \<Rightarrow>
               ''I'm having trouble getting donation advice. Please try again!''
           | GeneralQuestionEndpoint \<Rightarrow>
               ''I'm having trouble answering that question. Please try again!''))"

text \<open>
  The response text and the navigation target of the branches that answer locally. The
  first component is \<open>responseText\<close>, the second \<open>navigateTo\<close>.
\<close>

definition localResponse :: "env \<Rightarrow> string \<Rightarrow> branch \<Rightarrow> string \<times> string option" where
  "localResponse e lowerCommand b =
     (case b of
        Pipeline \<Rightarrow>
          (''Let me show you the sales pipeline!'', Some (''/t/'' @ tenantId e @ ''/pipeline''))
      | Donations \<Rightarrow>
          (''Perfect! Opening donations for this quarter!'',
           Some (''/t/'' @ tenantId e @ ''/donations''))
      | BiggestDonor \<Rightarrow>
          (case biggestDonationInfo e of
             Some info \<Rightarrow>
               (if includesStr lowerCommand ''quarter''
                then (''Alex Inc is the biggest donor this quarter with $''
                        @ toLocaleString (amount info) @ '' donated on '' @ date info @ ''!'',
                      None)
                else (''The biggest donor is '' @ donor info @ '' with $''
                        @ toLocaleString (amount info) @ '' donated on '' @ date info @ ''!'',
                      None))
           | None \<Rightarrow>
               (''Perfect! Let me show you the donations page to find the biggest donor this quarter!'',
                Some (''/t/'' @ tenantId e @ ''/donations'')))
      | Contacts \<Rightarrow> (''Opening your contacts!'', Some (''/t/'' @ tenantId e @ ''/contacts''))
      | Calendar \<Rightarrow> (''Let's check your calendar!'', Some (''/t/'' @ tenantId e @ ''/calendar''))
      | Reports \<Rightarrow>
          (''Perfect! Generating your reports!'', Some (''/t/'' @ tenantId e @ ''/reports''))
      | FindJonathan \<Rightarrow>
          (''Perfect! Let me find Jonathan for you!'',
           Some (''/t/'' @ tenantId e @ ''/contacts?search=Jonathan''))
      | FindTakua \<Rightarrow>
          (''Finding Takua for you!'', Some (''/t/'' @ tenantId e @ ''/contacts?search=Takua''))
      | FindHong \<Rightarrow>
          (''Perfect! Let me find Hong for you!'',
           Some (''/t/'' @ tenantId e @ ''/contacts?search=Hong''))
      | FindDatz \<Rightarrow>
          (''Finding Datz for you!'', Some (''/t/'' @ tenantId e @ ''/contacts?search=Datz''))
      | Help \<Rightarrow>
          (''I can help you navigate to sales pipeline, donations, contacts, calendar, reports, find specific people like Jonathan, Takua, Hong, or Datz, tell you about the biggest donor this quarter, check the weather in Tokyo, get donation advice, answer any general question, or say 'stop' to stop me talking! Just say what you need!'',
           None)
      | Unrecognized \<Rightarrow>
          (''I didn't quite catch that. Try saying 'sales pipeline', 'donations', 'contacts', 'find Jonathan', or ask a question starting with 'QUESTION'.'',
           None)
      | _ \<Rightarrow> (''Perfect! Let me help you with that!'', None))"

text \<open>
  The part of \<open>processVoiceCommand\<close> after the guards, run on the state in which the
  command is already recorded and the processing flags are set.
\<close>

definition execute ::
  "env \<Rightarrow> (endpoint \<Rightarrow> string \<Rightarrow> fetch_result) \<Rightarrow> captured \<Rightarrow> session \<Rightarrow> string
     \<Rightarrow> session \<times> effect list"
where
  "execute e fetch c s command =
     (let lowerCommand = toLowerCase command;
          b = classify lowerCommand
      in if b = StopSpeaking then
           (let (s1, effs) = stopSpeaking e c s
            in (s1\<lparr>isProcessingCommand := False, isProcessing := False, avatarState := Idle\<rparr>,
                OnTranscript command # effs))
         else
           (case remoteEndpoint b of
              Some ep \<Rightarrow>
                (let s1 = s\<lparr>isProcessing := True, avatarState := Thinking\<rparr>;
                     responseText = remoteText ep (fetch ep command)
                 in (s1, OnTranscript command # QueryFetch ep command
                           # speak s1 responseText (CommandDone command None 3000)))
            | None \<Rightarrow>
                (let (responseText, navigateTo) = localResponse e lowerCommand b
                 in (s, OnTranscript command
                          # speak s responseText (CommandDone command navigateTo 5000)))))"

definition processVoiceCommand ::
  "env \<Rightarrow> (endpoint \<Rightarrow> string \<Rightarrow> fetch_result) \<Rightarrow> captured \<Rightarrow> session \<Rightarrow> int \<Rightarrow> string
     \<Rightarrow> session \<times> effect list"
where
  "processVoiceCommand e fetch c s now command =
     (if capturedIsProcessingCommand c \<or> capturedIsSpeaking c \<or> capturedIsProcessing c
      then (s, [])
      else
        (let normalizedCommand = trim (toLowerCase command)
         in if lastProcessedCommand s = normalizedCommand then (s, [])
            else if length (split CHR '' '' normalizedCommand) < 2
                    \<and> \<not> includesStr normalizedCommand ''help''
                    \<and> \<not> includesStr normalizedCommand ''stop'' then (s, [])
            else if now - (case lastProcessedTimestamp s of None \<Rightarrow> 0 | Some t \<Rightarrow> t) < 3000
            then (s, [])
            else execute e fetch c
                   (s\<lparr>lastProcessedCommand := normalizedCommand,
                      lastProcessedTimestamp := Some now,
                      isProcessingCommand := True,
                      isProcessing := True,
                      avatarState := Thinking\<rparr>)
                   command))"

section \<open>Hosted synthesis with browser fallback\<close>

text \<open>
  What the browser reports for the audio element of a hosted attempt: the promise of
  \<open>audio.play()\<close> rejects, the element fires \<open>error\<close>, or it fires \<open>ended\<close>. A hosted
  attempt either throws in \<open>fetch\<close>, gets a non-success response, or gets audio for
  which the browser delivers a sequence of such signals.
\<close>

datatype audio_signal = PlayRejected | AudioError | AudioEnded

datatype tts_attempt = TtsFetchThrew | TtsNotOk | TtsAudio "audio_signal list"

definition friendlyVoice :: "(string \<times> string) list \<Rightarrow> (string \<times> string) option" where
  "friendlyVoice vs =
     find (\<lambda>(name, lang). lang = ''en-US''
              \<and> (includesStr name ''Google'' \<or> includesStr name ''Microsoft''
                   \<or> includesStr name ''Samantha'')) vs"

text \<open>
  \<open>fallbackSpeak\<close> empties the browser's utterance queue and queues one utterance for the
  text (rate, pitch and volume are constants and left out).
\<close>

definition fallbackSpeak :: "env \<Rightarrow> string \<Rightarrow> on_end \<Rightarrow> effect list" where
  "fallbackSpeak e text' onEnd =
     (if speechSynthesisSupported e
      then [SynthesisCancel,
            SynthesisSpeak \<lparr>utteranceText = text', utteranceVoice = friendlyVoice (voices e)\<rparr> onEnd]
      else [])"

definition idleUnlessBusy :: "captured \<Rightarrow> session \<Rightarrow> session" where
  "idleUnlessBusy c s =
     (if \<not> capturedIsListening c \<and> \<not> capturedIsProcessing c
         \<and> \<not> capturedIsProcessingCommand c
      then s\<lparr>avatarState := Idle\<rparr> else s)"

fun audioSignal :: "env \<Rightarrow> string \<Rightarrow> on_end \<Rightarrow> captured \<Rightarrow> session \<times> effect list
    \<Rightarrow> audio_signal \<Rightarrow> session \<times> effect list" where
  "audioSignal e text' onEnd c (s, effs) PlayRejected = (s, effs @ fallbackSpeak e text' onEnd)"
| "audioSignal e text' onEnd c (s, effs) AudioError =
     (idleUnlessBusy c (s\<lparr>isSpeaking := False\<rparr>), effs @ fallbackSpeak e text' onEnd)"
| "audioSignal e text' onEnd c (s, effs) AudioEnded =
     ((idleUnlessBusy c (s\<lparr>isSpeaking := False\<rparr>))\<lparr>stopSpeakingRef := False\<rparr>,
      effs @ [OnEndCall onEnd])"

definition speakWithOpenAI ::
  "env \<Rightarrow> captured \<Rightarrow> session \<Rightarrow> string \<Rightarrow> on_end \<Rightarrow> tts_attempt \<Rightarrow> session \<times> effect list"
where
  "speakWithOpenAI e c s text' onEnd attempt =
     (case attempt of
        TtsFetchThrew \<Rightarrow> (s, fallbackSpeak e text' onEnd)
      | TtsNotOk \<Rightarrow> (s, fallbackSpeak e text' onEnd)
      | TtsAudio signals \<Rightarrow>
          foldl (audioSignal e text' onEnd c)
            (s\<lparr>isSpeaking := True, avatarState := Speaking, stopSpeakingRef := True\<rparr>, [])
            signals)"

text \<open>
  The browser's utterance queue under the calls the component makes: \<open>cancel\<close> removes
  every utterance, \<open>speak\<close> appends one.
\<close>

fun synthesisQueue :: "utterance list \<Rightarrow> effect list \<Rightarrow> utterance list" where
  "synthesisQueue q [] = q"
| "synthesisQueue q (SynthesisCancel # effs) = synthesisQueue [] effs"
| "synthesisQueue q (SynthesisSpeak u onEnd # effs) = synthesisQueue (q @ [u]) effs"
| "synthesisQueue q (_ # effs) = synthesisQueue q effs"

fun isSynthesisSpeak :: "effect \<Rightarrow> bool" where
  "isSynthesisSpeak (SynthesisSpeak u onEnd) = True"
| "isSynthesisSpeak _ = False"

definition fallbackInvocations :: "effect list \<Rightarrow> nat" where
  "fallbackInvocations effs = length (filter isSynthesisSpeak effs)"

definition isFailureSignal :: "audio_signal \<Rightarrow> bool" where
  "isFailureSignal sig = (sig = PlayRejected \<or> sig = AudioError)"

section \<open>Speech capture\<close>

text \<open>
  One entry of \<open>event.results\<close>: the transcript of its first alternative, whether the
  segment is final, and the confidence of the first alternative when the recogniser
  reports one.
\<close>

record recognition_result =
  resultTranscript :: string
  resultIsFinal :: bool
  resultConfidence :: "rat option"

definition noisePatterns :: "string list" where
  "noisePatterns =
     [''uh'', ''um'', ''ah'', ''eh'', ''oh'', ''mm'', ''hmm'', ''huh'',
      ''yeah'', ''yes'', ''no'', ''ok'', ''okay'', ''right'', ''sure'',
      ''hello'', ''hi'', ''hey'', ''test'', ''testing'', ''mic'', ''microphone'']"

definition finalTranscriptOf :: "nat \<Rightarrow> recognition_result list \<Rightarrow> string" where
  "finalTranscriptOf resultIndex results =
     concat (map resultTranscript (filter resultIsFinal (drop resultIndex results)))"

definition interimTranscriptOf :: "nat \<Rightarrow> recognition_result list \<Rightarrow> string" where
  "interimTranscriptOf resultIndex results =
     concat (map resultTranscript (filter (\<lambda>r. \<not> resultIsFinal r) (drop resultIndex results)))"

definition lowConfidence :: "recognition_result list \<Rightarrow> bool" where
  "lowConfidence results =
     (case results of
        [] \<Rightarrow> False
      | _ \<Rightarrow> (case resultConfidence (last results) of
                None \<Rightarrow> False
              | Some c \<Rightarrow> c < 8 / 10))"

text \<open>The four noise filters of \<open>recognition.onresult\<close>, in the source's order.\<close>

definition passesNoiseFilters :: "string \<Rightarrow> recognition_result list \<Rightarrow> bool" where
  "passesNoiseFilters finalTranscript results =
     (let trimmedTranscript = trim finalTranscript
      in if length trimmedTranscript < 5 then False
         else if lowConfidence results then False
         else (let lowerTranscript = toLowerCase trimmedTranscript
               in if lowerTranscript \<in> set noisePatterns then False
                  else if length (split CHR '' '' lowerTranscript) = 1 \<and> length lowerTranscript < 8
                  then False
                  else True))"

text \<open>
  The handler tests the captured flags before it starts the 500 ms timer, and the timer's
  callback tests the same captured flags again before it calls the dispatcher.
\<close>

definition onresult ::
  "captured \<Rightarrow> session \<Rightarrow> nat \<Rightarrow> recognition_result list \<Rightarrow> session \<times> effect list" where
  "onresult c s resultIndex results =
     (let finalTranscript = finalTranscriptOf resultIndex results;
          interimTranscript = interimTranscriptOf resultIndex results;
          s1 = (if interimTranscript \<noteq> [] then s\<lparr>transcript := interimTranscript\<rparr> else s)
      in if finalTranscript = [] then (s1, [])
         else if \<not> passesNoiseFilters finalTranscript results then (s1, [])
         else (s1\<lparr>transcript := finalTranscript\<rparr>,
               (if roomRef s1 then [PublishData finalTranscript] else [])
               @ (if \<not> capturedIsProcessingCommand c \<and> \<not> capturedIsSpeaking c
                     \<and> \<not> capturedIsProcessing c
                  then [ProcessAfterDelay 500 finalTranscript] else [])))"

section \<open>Session controller\<close>

definition cleanupAudioMonitoring :: "session \<Rightarrow> session \<times> effect list" where
  "cleanupAudioMonitoring s =
     (s\<lparr>animationFrameRef := False, audioContextRef := False, analyserRef := False,
        audioLevel := 0\<rparr>,
      (if animationFrameRef s then [CancelAnimationFrame] else [])
      @ (if audioContextRef s then [AudioContextClose] else []))"

definition stopAmbientListening :: "captured \<Rightarrow> session \<Rightarrow> session \<times> effect list" where
  "stopAmbientListening c s =
     (if recognitionRef s
      then (let s1 = s\<lparr>recognitionRef := False, isListening := False, isAmbientMode := False\<rparr>
            in (if \<not> capturedIsProcessing c then s1\<lparr>avatarState := Idle\<rparr> else s1,
                [RecognitionStop]))
      else (s, []))"

text \<open>The handler of the provider's \<open>RoomEvent.Disconnected\<close>.\<close>

definition onRoomDisconnected :: "captured \<Rightarrow> session \<Rightarrow> session \<times> effect list" where
  "onRoomDisconnected c s =
     (let s1 = s\<lparr>isConnected := False, isListening := False,
                 connectionStatus := StatusDisconnected, avatarState := Idle,
                 hasIntroduced := False\<rparr>;
          (s2, effs2) = cleanupAudioMonitoring s1;
          (s3, effs3) = stopAmbientListening c s2
      in (s3, effs2 @ effs3))"

text \<open>The explicit disconnect behind the button.\<close>

definition disconnectFromRoom :: "captured \<Rightarrow> session \<Rightarrow> session \<times> effect list" where
  "disconnectFromRoom c s =
     (let (s1, effs1) = stopAmbientListening c s;
          (s2, effs2) = cleanupAudioMonitoring s1;
          effs3 = (if roomRef s2 then [RoomDisconnectCall] else []);
          s3 = s2\<lparr>roomRef := False\<rparr>
      in (s3\<lparr>isConnected := False, isListening := False, isProcessing := False,
             isProcessingCommand := False, connectionStatus := StatusDisconnected,
             transcript := [], avatarState := Idle, hasIntroduced := False\<rparr>,
          effs1 @ effs2 @ effs3))"

text \<open>
  A data message from the room: a transcript to process, a response to speak, or
  anything else (another type, or a payload that does not parse).
\<close>

datatype data_message = TranscriptMessage string | ResponseMessage string | OtherMessage

definition onDataReceived ::
  "env \<Rightarrow> (endpoint \<Rightarrow> string \<Rightarrow> fetch_result) \<Rightarrow> captured \<Rightarrow> session \<Rightarrow> int
     \<Rightarrow> data_message \<Rightarrow> session \<times> effect list" where
  "onDataReceived e fetch c s now msg =
     (case msg of
        TranscriptMessage transcriptText \<Rightarrow>
          (let s1 = s\<lparr>transcript := transcriptText\<rparr>
           in if \<not> capturedIsProcessingCommand c \<and> \<not> capturedIsSpeaking c
                 \<and> \<not> capturedIsProcessing c
              then (let (s2, effs) = processVoiceCommand e fetch c s1 now transcriptText
                    in (s2, OnTranscript transcriptText # effs))
              else (s1, [OnTranscript transcriptText]))
      | ResponseMessage text' \<Rightarrow> (s, speak s text' NoCallback)
      | OtherMessage \<Rightarrow> (s, []))"

section \<open>The mood endpoint\<close>

text \<open>
  The request body after \<open>request.json()\<close>: not parseable, a \<open>query\<close> that is a string, a
  \<open>query\<close> that is missing or another falsy value, or a truthy value that is not a
  string. The upstream chat-completion call returns a success response with the content
  of its first choice (when there is one), a non-success response, or fails.
\<close>

datatype mood_request = MalformedBody | QueryString string | QueryFalsy | QueryNotString

datatype upstream_result = UpstreamOk "string option" | UpstreamNotOk | UpstreamFailed

datatype http_response = AnswerJson string string | ErrorJson nat string

datatype upstream_call = ChatCompletion string

definition sensitiveKeywords :: "string list" where
  "sensitiveKeywords =
     [''hurt myself'', ''hurt myself'', ''suicide'', ''kill myself'', ''end it all'',
      ''not worth it'']"

definition sensitiveResponse :: string where
  "sensitiveResponse = ''I'm really sorry you're feeling this way. You are valued and important, and there are people who care about you. Please know that you don't have to go through this alone. Is there someone you trust that you could talk to? I'm here to listen and support you.''"

definition moodKeywords :: "(string \<times> string) list" where
  "moodKeywords =
     [(''sad'', ''I'm really sorry you're feeling this way. It's okay to feel sad sometimes. Can you tell me more about what's been going on? I'm here to listen and support you.''),
      (''angry'', ''I understand you're feeling angry, and that's completely valid. Sometimes it helps to talk about what's bothering you. What's been on your mind?''),
      (''frustrated'', ''I'm sorry you're feeling frustrated. That can be really tough to deal with. Is there something specific that's been bothering you? I'm here to listen.''),
      (''overwhelmed'', ''I'm sorry you're feeling overwhelmed. That can be really difficult. Take a deep breath - you're doing your best. What's been weighing on you?''),
      (''stressed'', ''I'm sorry you're feeling stressed. That can be really draining. Is there anything specific that's been causing you stress? I'm here to support you.''),
      (''anxious'', ''I'm sorry you're feeling anxious. That can be really uncomfortable. Take a moment to breathe. What's been making you feel this way?''),
      (''lonely'', ''I'm sorry you're feeling lonely. That can be really hard. You're not alone in this - I'm here to listen and support you. What's been on your mind?''),
      (''happy'', ''That's wonderful to hear! I'm so glad you're feeling happy. What's been making you feel this way? I'd love to share in your joy!''),
      (''excited'', ''That's fantastic! I'm excited for you! What's got you feeling this way? I'd love to hear about it!''),
      (''grateful'', ''That's beautiful! Gratitude is such a wonderful feeling. What are you grateful for? I'd love to hear about it!'')]"

definition detectedMood :: "string \<Rightarrow> (string \<times> string) option" where
  "detectedMood query =
     find (\<lambda>(mood, response).
             includesStr (toLowerCase query) mood
             \<or> includesStr (toLowerCase query) (''feeling '' @ mood)
             \<or> includesStr (toLowerCase query) (''i'm '' @ mood)
             \<or> includesStr (toLowerCase query) (''i am '' @ mood))
          moodKeywords"

definition moodPOST :: "(string \<Rightarrow> upstream_result) \<Rightarrow> mood_request \<Rightarrow> http_response \<times> upstream_call list"
where
  "moodPOST upstream req =
     (case req of
        MalformedBody \<Rightarrow> (ErrorJson 500 ''Failed to provide mood response'', [])
      | QueryFalsy \<Rightarrow> (ErrorJson 400 ''Query is required'', [])
      | QueryNotString \<Rightarrow> (ErrorJson 500 ''Failed to provide mood response'', [])
      | QueryString query \<Rightarrow>
          if query = [] then (ErrorJson 400 ''Query is required'', [])
          else if includesAny (toLowerCase query) sensitiveKeywords
          then (AnswerJson sensitiveResponse query, [])
          else (case detectedMood query of
                  Some (mood, response) \<Rightarrow> (AnswerJson response query, [])
                | None \<Rightarrow>
                    (case upstream query of
                       UpstreamOk content \<Rightarrow>
                         (AnswerJson
                            (case content of
                               None \<Rightarrow> ''I'm here to listen and support you. How can I help you feel better?''
                             | Some a \<Rightarrow>
                                 if a = []
                                 then ''I'm here to listen and support you. How can I help you feel better?''
                                 else a)
                            query,
                          [ChatCompletion query])
                     | UpstreamNotOk \<Rightarrow>
                         (ErrorJson 500 ''Failed to provide mood response'', [ChatCompletion query])
                     | UpstreamFailed \<Rightarrow>
                         (ErrorJson 500 ''Failed to provide mood response'', [ChatCompletion query]))))"

section \<open>Notions used to state the properties\<close>

text \<open>
  The specification numbers the rules 1 to 11. It files the biggest-donor question
  under rule 3 (donations) and the find variants under rule 4 (contacts).
  \<open>specRuleNumber\<close> gives the rule a branch belongs to, \<open>specRuleTriggers\<close> the keyword
  test of each rule in the specification's order, and \<open>specRule\<close> the number of the
  first rule whose keywords match.
\<close>

definition specRuleNumber :: "branch \<Rightarrow> nat" where
  "specRuleNumber b =
     (case b of
        StopSpeaking \<Rightarrow> 1
      | Pipeline \<Rightarrow> 2
      | Donations \<Rightarrow> 3
      | BiggestDonor \<Rightarrow> 3
      | Contacts \<Rightarrow> 4
      | FindJonathan \<Rightarrow> 4
      | FindTakua \<Rightarrow> 4
      | FindHong \<Rightarrow> 4
      | FindDatz \<Rightarrow> 4
      | Calendar \<Rightarrow> 5
      | Reports \<Rightarrow> 6
      | Weather \<Rightarrow> 7
      | DonationAdvice \<Rightarrow> 8
      | GeneralQuestion \<Rightarrow> 9
      | Help \<Rightarrow> 10
      | Unrecognized \<Rightarrow> 11)"

definition specRuleTriggers :: "(string \<Rightarrow> bool) list" where
  "specRuleTriggers =
     [\<lambda>c. includesAny c stopKeywords,
      \<lambda>c. includesAny c pipelineKeywords,
      \<lambda>c. includesAny c donationsKeywords \<or> includesAny c biggestDonorKeywords,
      \<lambda>c. includesAny c contactsKeywords
           \<or> (includesStr c ''find''
               \<and> includesAny c [''jonathan'', ''takua'', ''hong'', ''datz'']),
      \<lambda>c. includesAny c calendarKeywords,
      \<lambda>c. includesAny c reportsKeywords,
      \<lambda>c. includesAny c weatherKeywords,
      \<lambda>c. includesAny c donationAdviceKeywords,
      \<lambda>c. startsWithAny c questionPrefixes,
      \<lambda>c. includesAny c helpKeywords,
      \<lambda>c. True]"

definition specRule :: "string \<Rightarrow> nat" where
  "specRule c = Suc (length (takeWhile (\<lambda>trigger. \<not> trigger c) specRuleTriggers))"

text \<open>
  The same rules with the find variants of rule 4 taken out of their place and tested
  after rule 6: each entry is a rule number and its keyword test, and \<open>ruleTaken\<close> is
  the number of the first entry whose test holds.
\<close>

definition ruleTable :: "(nat \<times> (string \<Rightarrow> bool)) list" where
  "ruleTable =
     [(1, \<lambda>c. includesAny c stopKeywords),
      (2, \<lambda>c. includesAny c pipelineKeywords),
      (3, \<lambda>c. includesAny c donationsKeywords \<or> includesAny c biggestDonorKeywords),
      (4, \<lambda>c. includesAny c contactsKeywords),
      (5, \<lambda>c. includesAny c calendarKeywords),
      (6, \<lambda>c. includesAny c reportsKeywords),
      (4, \<lambda>c. includesStr c ''find''
                \<and> includesAny c [''jonathan'', ''takua'', ''hong'', ''datz'']),
      (7, \<lambda>c. includesAny c weatherKeywords),
      (8, \<lambda>c. includesAny c donationAdviceKeywords),
      (9, \<lambda>c. startsWithAny c questionPrefixes),
      (10, \<lambda>c. includesAny c helpKeywords),
      (11, \<lambda>c. True)]"

definition ruleTaken :: "string \<Rightarrow> nat" where
  "ruleTaken c =
     (case find (\<lambda>(number, trigger). trigger c) ruleTable of
        Some (number, trigger) \<Rightarrow> number
      | None \<Rightarrow> 11)"

text \<open>
  The white-space separated words of a text: the maximal runs of characters that are
  not white space.
\<close>

fun wsWordsAcc :: "string \<Rightarrow> string \<Rightarrow> string list" where
  "wsWordsAcc w [] = (if w = [] then [] else [w])"
| "wsWordsAcc w (c # cs) =
     (if isWhiteSpace c then (if w = [] then wsWordsAcc [] cs else w # wsWordsAcc [] cs)
      else wsWordsAcc (w @ [c]) cs)"

definition wsWords :: "string \<Rightarrow> string list" where
  "wsWords s = wsWordsAcc [] s"

text \<open>
  A connected, listening session with no command in flight, the environment of the
  specification's example, and query proxies that are down.
\<close>

definition exampleSession :: session where
  "exampleSession =
     \<lparr>isConnected = True, isListening = True, transcript = [], isSpeaking = False,
      connectionStatus = StatusConnected, error = [], avatarState = Listening,
      isProcessing = False, isAmbientMode = True, audioLevel = 0,
      isProcessingCommand = False, hasIntroduced = True, lastProcessedCommand = [],
      lastProcessedTimestamp = None, stopSpeakingRef = False, roomRef = True,
      recognitionRef = True, audioContextRef = True, analyserRef = True,
      animationFrameRef = True\<rparr>"

definition exampleEnv :: env where
  "exampleEnv =
     \<lparr>tenantId = ''acme'',
      biggestDonationInfo = Some \<lparr>donor = ''Alex Inc'', amount = 15000, date = ''2024-10-25''\<rparr>,
      speechSynthesisSupported = True,
      voices = [(''Google US English'', ''en-US'')]\<rparr>"

definition proxiesDown :: "endpoint \<Rightarrow> string \<Rightarrow> fetch_result" where
  "proxiesDown ep query = ResponseNotOk"

text \<open>
  Two runs from the example session, with handlers created while no command was in
  flight: the session after "stop talking" is submitted at 5000 ms, and the session after
  "show pipeline" is submitted at 5000 ms.
\<close>

definition afterStopTalking :: session where
  "afterStopTalking =
     fst (processVoiceCommand exampleEnv proxiesDown (capture exampleSession) exampleSession
            5000 ''stop talking'')"

definition afterShowPipeline :: session where
  "afterShowPipeline =
     fst (processVoiceCommand exampleEnv proxiesDown (capture exampleSession) exampleSession
            5000 ''show pipeline'')"

definition attemptFailed :: "tts_attempt \<Rightarrow> bool" where
  "attemptFailed attempt =
     (case attempt of
        TtsFetchThrew \<Rightarrow> True
      | TtsNotOk \<Rightarrow> True
      | TtsAudio signals \<Rightarrow> list_ex isFailureSignal signals)"

section \<open>Facts about the string operations\<close>

lemma wsWordsAcc_nonempty:
  "w \<noteq> [] \<or> (\<exists>c \<in> set s. \<not> isWhiteSpace c) \<Longrightarrow> wsWordsAcc w s \<noteq> []"
  by (induction s arbitrary: w) auto

lemma wsWordsAcc_two:
  "isWhiteSpace sp \<Longrightarrow> w \<noteq> [] \<or> (\<exists>c \<in> set a. \<not> isWhiteSpace c)
   \<Longrightarrow> \<exists>c \<in> set b. \<not> isWhiteSpace c
   \<Longrightarrow> 2 \<le> length (wsWordsAcc w (a @ sp # b))"
proof (induction a arbitrary: w)
  case Nil
  then have "wsWordsAcc [] b \<noteq> []" using wsWordsAcc_nonempty by blast
  then have "1 \<le> length (wsWordsAcc [] b)" by (cases "wsWordsAcc [] b") auto
  with Nil show ?case by simp
next
  case (Cons c a)
  show ?case
  proof (cases "isWhiteSpace c")
    case True
    show ?thesis
    proof (cases "w = []")
      case True
      with \<open>isWhiteSpace c\<close> Cons.prems have "\<exists>c \<in> set a. \<not> isWhiteSpace c" by auto
      then have "2 \<le> length (wsWordsAcc [] (a @ sp # b))"
        using Cons.IH [of "[]"] Cons.prems by blast
      with True \<open>isWhiteSpace c\<close> show ?thesis by simp
    next
      case False
      have "wsWordsAcc [] (a @ sp # b) \<noteq> []"
        using wsWordsAcc_nonempty [of "[]" "a @ sp # b"] Cons.prems(3) by auto
      then have "1 \<le> length (wsWordsAcc [] (a @ sp # b))"
        by (cases "wsWordsAcc [] (a @ sp # b)") auto
      with False \<open>isWhiteSpace c\<close> show ?thesis by simp
    qed
  next
    case False
    have "2 \<le> length (wsWordsAcc (w @ [c]) (a @ sp # b))"
      using Cons.IH [of "w @ [c]"] Cons.prems by simp
    with False show ?thesis by simp
  qed
qed

lemma dropWhile_hd: "dropWhile P xs \<noteq> [] \<Longrightarrow> \<not> P (hd (dropWhile P xs))"
  by (simp add: hd_dropWhile)

lemma dropWhile_last: "dropWhile P xs \<noteq> [] \<Longrightarrow> last (dropWhile P xs) = last xs"
  by (induction xs) (auto split: if_splits)

lemma trim_hd: "trim x \<noteq> [] \<Longrightarrow> \<not> isWhiteSpace (hd (trim x))"
proof -
  assume ne: "trim x \<noteq> []"
  let ?y = "dropWhile isWhiteSpace x"
  let ?z = "dropWhile isWhiteSpace (rev ?y)"
  from ne have z: "?z \<noteq> []" by (simp add: trim_def)
  have y: "?y \<noteq> []"
  proof
    assume "?y = []"
    then have "?z = []" by (simp only: rev.simps dropWhile.simps)
    with z show False by blast
  qed
  have "hd (trim x) = last ?z" using z by (simp add: trim_def hd_rev)
  also have "\<dots> = last (rev ?y)" using z by (rule dropWhile_last)
  also have "\<dots> = hd ?y" using y by (simp add: last_rev)
  finally show ?thesis using dropWhile_hd [OF y] by simp
qed

lemma trim_last: "trim x \<noteq> [] \<Longrightarrow> \<not> isWhiteSpace (last (trim x))"
proof -
  assume ne: "trim x \<noteq> []"
  let ?z = "dropWhile isWhiteSpace (rev (dropWhile isWhiteSpace x))"
  from ne have z: "?z \<noteq> []" by (simp add: trim_def)
  have "last (trim x) = hd ?z" using z by (simp add: trim_def last_rev)
  then show ?thesis using dropWhile_hd [OF z] by simp
qed

lemma split_no_delim: "d \<notin> set s \<Longrightarrow> split d s = [s]"
  by (induction s) auto

lemma isWhiteSpace_space: "isWhiteSpace CHR '' ''"
  by (simp add: isWhiteSpace_def)

lemma few_words_no_space:
  assumes "length (wsWords (trim x)) < 2"
  shows "CHR '' '' \<notin> set (trim x)"
proof
  assume "CHR '' '' \<in> set (trim x)"
  then obtain a b where ab: "trim x = a @ CHR '' '' # b" by (meson split_list)
  then have ne: "trim x \<noteq> []" by simp
  have "a \<noteq> []" using trim_hd [OF ne] ab isWhiteSpace_space by (cases a) auto
  then have "hd a = hd (trim x)" using ab by simp
  then have A: "\<exists>c \<in> set a. \<not> isWhiteSpace c"
    using trim_hd [OF ne] \<open>a \<noteq> []\<close> by (metis hd_in_set)
  have "b \<noteq> []" using trim_last [OF ne] ab isWhiteSpace_space by (cases b) auto
  then have "last b = last (trim x)" using ab by simp
  then have B: "\<exists>c \<in> set b. \<not> isWhiteSpace c"
    using trim_last [OF ne] \<open>b \<noteq> []\<close> by (metis last_in_set)
  have "2 \<le> length (wsWordsAcc [] (a @ CHR '' '' # b))"
    using wsWordsAcc_two [OF isWhiteSpace_space _ B, of "[]" a] A by blast
  with assms ab show False by (simp add: wsWords_def)
qed

lemma includesStr_empty: "k \<noteq> [] \<Longrightarrow> \<not> includesStr [] k"
  by simp

section \<open>The dispatcher's guards\<close>

lemma guard_busy:
  "capturedIsProcessingCommand c \<or> capturedIsSpeaking c \<or> capturedIsProcessing c
   \<Longrightarrow> processVoiceCommand e fetch c s now command = (s, [])"
  by (simp add: processVoiceCommand_def)

lemma guard_cooldown:
  "now - (case lastProcessedTimestamp s of None \<Rightarrow> 0 | Some t \<Rightarrow> t) < 3000
   \<Longrightarrow> processVoiceCommand e fetch c s now command = (s, [])"
  by (simp add: processVoiceCommand_def Let_def)

lemma guard_short:
  "length (split CHR '' '' (trim (toLowerCase command))) < 2
   \<Longrightarrow> \<not> includesStr (trim (toLowerCase command)) ''help''
   \<Longrightarrow> \<not> includesStr (trim (toLowerCase command)) ''stop''
   \<Longrightarrow> processVoiceCommand e fetch c s now command = (s, [])"
  by (simp add: processVoiceCommand_def Let_def)

lemma execute_effects: "snd (execute e fetch c s command) \<noteq> []"
  by (simp add: execute_def Let_def split: prod.splits option.splits)

lemma execute_timestamp:
  "lastProcessedTimestamp (fst (execute e fetch c s command)) = lastProcessedTimestamp s"
  by (simp add: execute_def Let_def stopSpeaking_def split: prod.splits option.splits)

lemma dispatched_timestamp:
  assumes "snd (processVoiceCommand e fetch c s now command) \<noteq> []"
  shows "lastProcessedTimestamp (fst (processVoiceCommand e fetch c s now command)) = Some now"
  using assms
  by (auto simp: processVoiceCommand_def Let_def execute_timestamp split: if_splits)

text \<open>
  The time stamp is written by a dispatch only: a call of the dispatcher leaves it or
  sets it to the time of the call, and the other handlers leave it.
\<close>

lemma dispatcher_timestamp:
  "lastProcessedTimestamp (fst (processVoiceCommand e fetch c s now command))
     = lastProcessedTimestamp s
   \<or> lastProcessedTimestamp (fst (processVoiceCommand e fetch c s now command)) = Some now"
  by (auto simp: processVoiceCommand_def Let_def execute_timestamp split: if_splits)

lemma handlers_keep_timestamp:
  "lastProcessedTimestamp (fst (onresult c s resultIndex results)) = lastProcessedTimestamp s"
  "lastProcessedTimestamp (fst (speakWithOpenAI e c s t onEnd TtsFetchThrew))
     = lastProcessedTimestamp s"
  "lastProcessedTimestamp (fst (speakWithOpenAI e c s t onEnd TtsNotOk))
     = lastProcessedTimestamp s"
  "lastProcessedTimestamp (fst (onRoomDisconnected c s)) = lastProcessedTimestamp s"
  "lastProcessedTimestamp (fst (disconnectFromRoom c s)) = lastProcessedTimestamp s"
  by (simp_all add: onresult_def speakWithOpenAI_def onRoomDisconnected_def
        disconnectFromRoom_def cleanupAudioMonitoring_def stopAmbientListening_def Let_def
        split: prod.splits)

section \<open>Speech output: fallback\<close>

lemma synthesisQueue_append:
  "synthesisQueue q (a @ b) = synthesisQueue (synthesisQueue q a) b"
  by (induction q a rule: synthesisQueue.induct) simp_all

lemma fallbackInvocations_append:
  "fallbackInvocations (a @ b) = fallbackInvocations a + fallbackInvocations b"
  by (simp add: fallbackInvocations_def)

lemma fallbackInvocations_OnEndCall: "fallbackInvocations [OnEndCall onEnd] = 0"
  by (simp add: fallbackInvocations_def)

lemma fallbackInvocations_Nil: "fallbackInvocations [] = 0"
  by (simp add: fallbackInvocations_def)

lemma fallbackSpeak_count:
  "speechSynthesisSupported e \<Longrightarrow> fallbackInvocations (fallbackSpeak e t onEnd) = 1"
  by (simp add: fallbackInvocations_def fallbackSpeak_def)

lemma fallbackSpeak_queue:
  "speechSynthesisSupported e
   \<Longrightarrow> synthesisQueue q (fallbackSpeak e t onEnd)
       = [\<lparr>utteranceText = t, utteranceVoice = friendlyVoice (voices e)\<rparr>]"
  by (simp add: fallbackSpeak_def)

lemma audio_signals_count:
  "speechSynthesisSupported e
   \<Longrightarrow> fallbackInvocations (snd (foldl (audioSignal e t onEnd c) (s, effs) signals))
       = fallbackInvocations effs + length (filter isFailureSignal signals)"
proof (induction signals arbitrary: s effs)
  case Nil
  then show ?case by simp
next
  case (Cons sig signals)
  then show ?case
    by (cases sig)
       (simp_all add: fallbackInvocations_append fallbackSpeak_count isFailureSignal_def
          fallbackInvocations_OnEndCall)
qed

lemma audio_signals_queue:
  "speechSynthesisSupported e
   \<Longrightarrow> synthesisQueue q (snd (foldl (audioSignal e t onEnd c) (s, effs) signals))
       = (if list_ex isFailureSignal signals
          then [\<lparr>utteranceText = t, utteranceVoice = friendlyVoice (voices e)\<rparr>]
          else synthesisQueue q effs)"
proof (induction signals arbitrary: s effs)
  case Nil
  then show ?case by simp
next
  case (Cons sig signals)
  then show ?case
    by (cases sig)
       (simp_all add: synthesisQueue_append fallbackSpeak_queue isFailureSignal_def)
qed


section \<open>Claims\<close>

text \<open>
  Support for C1: the branch that answers the biggest-donor question is never taken for
  an utterance that mentions the quarter, so its quarter wording cannot be produced; the
  wording itself is the one the specification quotes.
\<close>

lemma biggest_donor_branch_excludes_quarter:
  "classify lowerCommand = BiggestDonor \<Longrightarrow> \<not> includesStr lowerCommand ''quarter''"
  by (auto simp: classify_def includesAny_def donationsKeywords_def split: if_splits)

lemma biggest_donor_quarter_wording:
  "localResponse exampleEnv ''biggest donor this quarter'' BiggestDonor
   = (''Alex Inc is the biggest donor this quarter with $15,000 donated on 2024-10-25!'', None)"
  by (simp add: localResponse_def exampleEnv_def toLocaleString_def digits.simps digitChar_def)

text \<open>
  C1 (the code departs from the claim). With the cached fact of the example, the
  utterance "biggest donor this quarter" contains "quarter" and is taken by the
  donations branch, which is tested first: the spoken text is "Perfect! Opening
  donations for this quarter!" and the command navigates to the donations page. No
  query proxy is called.
\<close>

theorem biggest_donor_this_quarter_opens_donations:
  "execute \<lparr>tenantId = t,
             biggestDonationInfo = Some \<lparr>donor = ''Alex Inc'', amount = 15000, date = ''2024-10-25''\<rparr>,
             speechSynthesisSupported = sy, voices = vs\<rparr>
           fetch c s ''biggest donor this quarter''
   = (s, OnTranscript ''biggest donor this quarter''
         # speak s ''Perfect! Opening donations for this quarter!''
             (CommandDone ''biggest donor this quarter'' (Some (''/t/'' @ t @ ''/donations'')) 5000))
   \<and> snd (processVoiceCommand exampleEnv proxiesDown (capture exampleSession) exampleSession 5000
             ''biggest donor this quarter'')
       = [OnTranscript ''biggest donor this quarter'', RecognitionStop,
          SpeakWithOpenAI ''Perfect! Opening donations for this quarter!''
            (CommandDone ''biggest donor this quarter'' (Some ''/t/acme/donations'') 5000)]"
proof
  have lc: "toLowerCase ''biggest donor this quarter'' = ''biggest donor this quarter''"
    by (simp add: toLowerCase_def toLowerChar_def)
  have cl: "classify ''biggest donor this quarter'' = Donations"
    by (simp add: classify_def includesAny_def stopKeywords_def pipelineKeywords_def
          donationsKeywords_def)
  show "execute \<lparr>tenantId = t,
             biggestDonationInfo = Some \<lparr>donor = ''Alex Inc'', amount = 15000, date = ''2024-10-25''\<rparr>,
             speechSynthesisSupported = sy, voices = vs\<rparr>
           fetch c s ''biggest donor this quarter''
   = (s, OnTranscript ''biggest donor this quarter''
         # speak s ''Perfect! Opening donations for this quarter!''
             (CommandDone ''biggest donor this quarter'' (Some (''/t/'' @ t @ ''/donations'')) 5000))"
    by (simp add: execute_def Let_def lc cl remoteEndpoint_def localResponse_def)
  show "snd (processVoiceCommand exampleEnv proxiesDown (capture exampleSession) exampleSession 5000
             ''biggest donor this quarter'')
       = [OnTranscript ''biggest donor this quarter'', RecognitionStop,
          SpeakWithOpenAI ''Perfect! Opening donations for this quarter!''
            (CommandDone ''biggest donor this quarter'' (Some ''/t/acme/donations'') 5000)]"
    by code_simp
qed

text \<open>
  C2, as stated, fails: the utterance "find jonathan meeting" matches the find variant
  that the specification files under rule 4 and the calendar keywords of rule 5, and the
  classifier takes the calendar branch.
\<close>

theorem find_before_calendar_counterexample:
  "specRule ''find jonathan meeting'' = 4
   \<and> specRuleNumber (classify ''find jonathan meeting'') = 5"
  by code_simp

text \<open>
  C2, amended. The classifier is total and deterministic: every input string is given
  exactly one of the rules 1 to 11, the first whose keywords match when the rules are
  tried in the order 1, 2, 3, 4 (contacts, people, customers), 5, 6, 4 (the find
  variants), 7, 8, 9, 10, 11. Rule order is the tie-break, except that the find variants
  of rule 4 are tried after rules 5 and 6. In particular "stop the pipeline" is
  classified as stop-speaking, not as a navigation to the pipeline.
\<close>

theorem classify_takes_first_matching_rule:
  "specRuleNumber (classify lowerCommand) = ruleTaken lowerCommand
   \<and> classify (toLowerCase ''stop the pipeline'') = StopSpeaking
   \<and> ruleTaken (toLowerCase ''stop the pipeline'') = 1"
proof (intro conjI)
  show "specRuleNumber (classify lowerCommand) = ruleTaken lowerCommand"
    by (auto simp: ruleTaken_def ruleTable_def classify_def specRuleNumber_def includesAny_def)
  show "classify (toLowerCase ''stop the pipeline'') = StopSpeaking"
    by (simp add: classify_def includesAny_def stopKeywords_def toLowerCase_def toLowerChar_def)
  show "ruleTaken (toLowerCase ''stop the pipeline'') = 1"
    by (simp add: ruleTaken_def ruleTable_def includesAny_def stopKeywords_def toLowerCase_def
          toLowerChar_def)
qed

text \<open>
  C3, as stated, fails: after "stop talking" is dispatched at 5000 ms, "show pipeline"
  submitted at 7000 ms is dropped by the 3 second cooldown and records nothing, and the
  same command submitted again at 8500 ms, 1.5 seconds after the first, is dispatched.
\<close>

theorem second_of_pair_dispatched_counterexample:
  "processVoiceCommand exampleEnv proxiesDown (capture exampleSession) afterStopTalking
     7000 ''show pipeline''
   = (afterStopTalking, [])
   \<and> snd (processVoiceCommand exampleEnv proxiesDown (capture exampleSession) afterStopTalking
            8500 ''show pipeline'')
      = [OnTranscript ''show pipeline'', RecognitionStop,
         SpeakWithOpenAI ''Let me show you the sales pipeline!''
           (CommandDone ''show pipeline'' (Some ''/t/acme/pipeline'') 5000)]"
  by code_simp

text \<open>
  C3, amended. Of two identical commands submitted less than 3 seconds apart, when the
  first is dispatched the second is rejected before any intent is executed, and no
  session state changes. The first is dispatched at time \<open>t1\<close> when its call issues
  effects (a rejected call issues none). The second is submitted at a time \<open>t2\<close> with
  \<open>t2 - t1 < 3000\<close>, by any handler, in any state whose time stamp is the one of the first
  dispatch or a later one: the time stamp is written by a dispatch only, so this is every
  state the session can be in after the first dispatch.
\<close>

theorem repeated_command_within_3s_rejected:
  assumes "snd (processVoiceCommand e fetch c s t1 command) \<noteq> []"
    and "lastProcessedTimestamp s2
           = lastProcessedTimestamp (fst (processVoiceCommand e fetch c s t1 command))
         \<or> (\<exists>t. lastProcessedTimestamp s2 = Some t \<and> t1 \<le> t)"
    and "t2 - t1 < 3000"
  shows "processVoiceCommand e2 fetch2 c2 s2 t2 command = (s2, [])"
proof -
  have "lastProcessedTimestamp (fst (processVoiceCommand e fetch c s t1 command)) = Some t1"
    using assms(1) by (rule dispatched_timestamp)
  with assms(2) obtain t where t: "lastProcessedTimestamp s2 = Some t" "t1 \<le> t" by auto
  then have "t2 - (case lastProcessedTimestamp s2 of None \<Rightarrow> 0 | Some t \<Rightarrow> t) < 3000"
    using assms(3) by simp
  then show ?thesis by (rule guard_cooldown)
qed

theorem repeated_command_within_3s_rejected_witness:
  "snd (processVoiceCommand exampleEnv proxiesDown (capture exampleSession) exampleSession
          5000 ''show pipeline'') \<noteq> []
   \<and> (7999 :: int) - 5000 < 3000
   \<and> processVoiceCommand exampleEnv proxiesDown (capture exampleSession) afterShowPipeline
        7999 ''show pipeline''
      = (afterShowPipeline, [])"
proof -
  have d: "snd (processVoiceCommand exampleEnv proxiesDown (capture exampleSession)
                  exampleSession 5000 ''show pipeline'') \<noteq> []"
    by code_simp
  have t: "(7999 :: int) - 5000 < 3000" by simp
  have s2: "lastProcessedTimestamp afterShowPipeline
              = lastProcessedTimestamp
                  (fst (processVoiceCommand exampleEnv proxiesDown (capture exampleSession)
                          exampleSession 5000 ''show pipeline''))
            \<or> (\<exists>t. lastProcessedTimestamp afterShowPipeline = Some t \<and> 5000 \<le> t)"
    by (simp add: afterShowPipeline_def)
  show ?thesis
    using d t
      repeated_command_within_3s_rejected [OF d s2 t,
        where ?e2.0 = exampleEnv and ?fetch2.0 = proxiesDown and ?c2.0 = "capture exampleSession"]
    by simp
qed

text \<open>
  Support for C4: a "response" data message is spoken whatever the flags are. (That the
  dispatcher refuses on the captured flags is \<open>guard_busy\<close> above.)
\<close>

lemma response_message_is_spoken:
  "onDataReceived e fetch c s now (ResponseMessage t) = (s, speak s t NoCallback)"
  by (simp add: onDataReceived_def)

text \<open>
  C4 (the code departs from the claim). The guards of the dispatcher and of the handlers
  that call it test the flags captured by the render that created the handler, not the
  flags of the session. After "show pipeline" is dispatched at 5000 ms the session has
  \<open>isProcessing\<close> and \<open>isProcessingCommand\<close> set and the spoken answer in flight; a
  transcript "open the calendar" reaching a handler created before that dispatch, at
  9000 ms, passes the capture gate and the room handler's gate, and the dispatcher
  starts processing it: it records the command, changes the session and starts a second
  spoken answer.
\<close>

theorem command_dispatched_while_flags_set:
  "isProcessing afterShowPipeline \<and> isProcessingCommand afterShowPipeline
   \<and> snd (onresult (capture exampleSession) afterShowPipeline 0
            [\<lparr>resultTranscript = ''open the calendar'', resultIsFinal = True,
              resultConfidence = Some (9 / 10)\<rparr>])
      = [PublishData ''open the calendar'', ProcessAfterDelay 500 ''open the calendar'']
   \<and> snd (processVoiceCommand exampleEnv proxiesDown (capture exampleSession) afterShowPipeline
            9000 ''open the calendar'')
      = [OnTranscript ''open the calendar'', RecognitionStop,
         SpeakWithOpenAI ''Let's check your calendar!''
           (CommandDone ''open the calendar'' (Some ''/t/acme/calendar'') 5000)]
   \<and> lastProcessedCommand
        (fst (processVoiceCommand exampleEnv proxiesDown (capture exampleSession)
                afterShowPipeline 9000 ''open the calendar''))
      = ''open the calendar''
   \<and> snd (onDataReceived exampleEnv proxiesDown (capture exampleSession) afterShowPipeline
            9000 (TranscriptMessage ''open the calendar''))
      = [OnTranscript ''open the calendar'', OnTranscript ''open the calendar'', RecognitionStop,
         SpeakWithOpenAI ''Let's check your calendar!''
           (CommandDone ''open the calendar'' (Some ''/t/acme/calendar'') 5000)]"
  by code_simp

text \<open>
  Support for C5: both disconnect paths stop speech capture and audio-level metering,
  and the explicit disconnect clears the processing flags.
\<close>

lemma disconnect_stops_capture_and_metering:
  "\<not> recognitionRef (fst (onRoomDisconnected c s)) \<and> \<not> isListening (fst (onRoomDisconnected c s))
   \<and> \<not> audioContextRef (fst (onRoomDisconnected c s))
   \<and> \<not> animationFrameRef (fst (onRoomDisconnected c s))
   \<and> \<not> recognitionRef (fst (disconnectFromRoom c s)) \<and> \<not> isListening (fst (disconnectFromRoom c s))
   \<and> \<not> audioContextRef (fst (disconnectFromRoom c s))
   \<and> \<not> animationFrameRef (fst (disconnectFromRoom c s))"
  by (simp add: onRoomDisconnected_def disconnectFromRoom_def cleanupAudioMonitoring_def
        stopAmbientListening_def Let_def split: prod.splits)

lemma explicit_disconnect_clears_flags:
  "\<not> isProcessing (fst (disconnectFromRoom c s)) \<and> \<not> isProcessingCommand (fst (disconnectFromRoom c s))
   \<and> connectionStatus (fst (disconnectFromRoom c s)) = StatusDisconnected"
  by (simp add: disconnectFromRoom_def cleanupAudioMonitoring_def stopAmbientListening_def
        Let_def split: prod.splits)

text \<open>
  C5 (the code departs from the claim). The handler of the provider's Disconnected event
  moves the session to the disconnected state and leaves \<open>isProcessing\<close> and
  \<open>isProcessingCommand\<close> as they were: flags that were set stay set.
\<close>

theorem provider_disconnect_keeps_processing_flags:
  "connectionStatus (fst (onRoomDisconnected c s)) = StatusDisconnected
   \<and> isProcessing (fst (onRoomDisconnected c s)) = isProcessing s
   \<and> isProcessingCommand (fst (onRoomDisconnected c s)) = isProcessingCommand s"
  by (simp add: onRoomDisconnected_def cleanupAudioMonitoring_def stopAmbientListening_def
        Let_def split: prod.splits)

text \<open>
  C6, as stated, fails: "find alice" reaches the classifier, is not recognised, and the
  command navigates nowhere.
\<close>

theorem find_alice_counterexample:
  "snd (processVoiceCommand exampleEnv proxiesDown (capture exampleSession) exampleSession 5000 ''find alice'')
   = [OnTranscript ''find alice'', RecognitionStop,
      SpeakWithOpenAI
        ''I didn't quite catch that. Try saying 'sales pipeline', 'donations', 'contacts', 'find Jonathan', or ask a question starting with 'QUESTION'.''
        (CommandDone ''find alice'' None 5000)]"
  by code_simp

text \<open>
  C6, amended. For an utterance that contains "find" and one of the four names the code
  knows (jonathan, takua, hong, datz), and that none of the branches tested earlier
  takes (stop, pipeline, donations, biggest donor, contacts, calendar, reports), the
  intent is a navigation to the contacts page with the first such name, capitalised, as
  the search parameter.
\<close>

theorem find_known_name_navigates_to_contacts_search:
  assumes "includesStr lowerCommand ''find''"
    and "includesAny lowerCommand [''jonathan'', ''takua'', ''hong'', ''datz'']"
    and "\<not> includesAny lowerCommand
             (stopKeywords @ pipelineKeywords @ donationsKeywords @ biggestDonorKeywords
              @ contactsKeywords @ calendarKeywords @ reportsKeywords)"
  shows "\<exists>key name.
           find (\<lambda>(key, name). includesStr lowerCommand key)
             [(''jonathan'', ''Jonathan''), (''takua'', ''Takua''), (''hong'', ''Hong''),
              (''datz'', ''Datz'')]
           = Some (key, name)
           \<and> snd (localResponse e lowerCommand (classify lowerCommand))
               = Some (''/t/'' @ tenantId e @ ''/contacts?search='' @ name)"
  using assms
  by (auto simp: includesAny_def classify_def localResponse_def split: if_splits)

theorem find_known_name_navigates_to_contacts_search_witness:
  "includesStr ''find takua'' ''find''
   \<and> includesAny ''find takua'' [''jonathan'', ''takua'', ''hong'', ''datz'']
   \<and> \<not> includesAny ''find takua''
         (stopKeywords @ pipelineKeywords @ donationsKeywords @ biggestDonorKeywords
          @ contactsKeywords @ calendarKeywords @ reportsKeywords)
   \<and> (\<exists>key name.
         find (\<lambda>(key, name). includesStr ''find takua'' key)
           [(''jonathan'', ''Jonathan''), (''takua'', ''Takua''), (''hong'', ''Hong''),
            (''datz'', ''Datz'')]
         = Some (key, name)
         \<and> snd (localResponse exampleEnv ''find takua'' (classify ''find takua''))
             = Some (''/t/'' @ tenantId exampleEnv @ ''/contacts?search='' @ name))"
proof -
  have a: "includesStr ''find takua'' ''find''" by code_simp
  have b: "includesAny ''find takua'' [''jonathan'', ''takua'', ''hong'', ''datz'']" by code_simp
  have c: "\<not> includesAny ''find takua''
         (stopKeywords @ pipelineKeywords @ donationsKeywords @ biggestDonorKeywords
          @ contactsKeywords @ calendarKeywords @ reportsKeywords)" by code_simp
  show ?thesis
    using a b c find_known_name_navigates_to_contacts_search [OF a b c, of exampleEnv] by blast
qed

text \<open>
  C7. A request to the mood endpoint whose query, in lower case, contains one of the
  self-harm keywords is answered with the fixed safety response and the original query,
  and the upstream model is not called.
\<close>

theorem mood_sensitive_query_short_circuits:
  assumes "includesAny (toLowerCase query) sensitiveKeywords"
  shows "moodPOST upstream (QueryString query) = (AnswerJson sensitiveResponse query, [])"
proof -
  have "query \<noteq> []"
    using assms by (auto simp: includesAny_def sensitiveKeywords_def toLowerCase_def)
  then show ?thesis using assms by (simp add: moodPOST_def)
qed

theorem mood_sensitive_query_short_circuits_witness:
  "includesAny (toLowerCase ''I want to hurt myself'') sensitiveKeywords
   \<and> moodPOST (\<lambda>q. UpstreamOk (Some ''Cheer up!'')) (QueryString ''I want to hurt myself'')
      = (AnswerJson sensitiveResponse ''I want to hurt myself'', [])"
proof -
  have a: "includesAny (toLowerCase ''I want to hurt myself'') sensitiveKeywords" by code_simp
  show ?thesis
    using a mood_sensitive_query_short_circuits [OF a, of "\<lambda>q. UpstreamOk (Some ''Cheer up!'')"]
    by blast
qed

text \<open>
  C8, as stated, fails: when the audio of a hosted attempt cannot be played, the element
  fires \<open>error\<close> and the promise of \<open>play()\<close> rejects; each has its own handler, and both
  call the fallback, which hands the text to the browser twice.
\<close>

theorem fallback_twice_counterexample:
  "fallbackInvocations
     (snd (speakWithOpenAI exampleEnv (capture exampleSession) exampleSession ''Hello'' NoCallback
             (TtsAudio [AudioError, PlayRejected])))
   = 2"
  by code_simp

text \<open>
  C8, amended. In a browser with built-in synthesis, a hosted attempt that gets a
  non-success response or throws hands the text to the fallback exactly once; an attempt
  whose audio fails hands it over once for every failure signal (the \<open>error\<close> event, a
  rejected \<open>play()\<close>). Every hand-over cancels the queued utterances first, so after a
  failed attempt the browser's queue holds exactly one utterance for the text, and after
  an attempt that did not fail the queue is as it was.
\<close>

theorem fallback_once_per_failure_signal:
  assumes "speechSynthesisSupported e"
  shows "fallbackInvocations (snd (speakWithOpenAI e c s t onEnd TtsFetchThrew)) = 1
         \<and> fallbackInvocations (snd (speakWithOpenAI e c s t onEnd TtsNotOk)) = 1
         \<and> fallbackInvocations (snd (speakWithOpenAI e c s t onEnd (TtsAudio signals)))
             = length (filter isFailureSignal signals)
         \<and> synthesisQueue q (snd (speakWithOpenAI e c s t onEnd attempt))
             = (if attemptFailed attempt
                then [\<lparr>utteranceText = t, utteranceVoice = friendlyVoice (voices e)\<rparr>]
                else q)"
proof (intro conjI)
  show "fallbackInvocations (snd (speakWithOpenAI e c s t onEnd TtsFetchThrew)) = 1"
    using assms by (simp add: speakWithOpenAI_def fallbackSpeak_count)
  show "fallbackInvocations (snd (speakWithOpenAI e c s t onEnd TtsNotOk)) = 1"
    using assms by (simp add: speakWithOpenAI_def fallbackSpeak_count)
  show "fallbackInvocations (snd (speakWithOpenAI e c s t onEnd (TtsAudio signals)))
        = length (filter isFailureSignal signals)"
    using assms by (simp add: speakWithOpenAI_def audio_signals_count fallbackInvocations_Nil)
  show "synthesisQueue q (snd (speakWithOpenAI e c s t onEnd attempt))
        = (if attemptFailed attempt
           then [\<lparr>utteranceText = t, utteranceVoice = friendlyVoice (voices e)\<rparr>]
           else q)"
    using assms
    by (cases attempt)
       (simp_all add: speakWithOpenAI_def attemptFailed_def fallbackSpeak_queue
          audio_signals_queue)
qed

theorem fallback_once_per_failure_signal_witness:
  "speechSynthesisSupported exampleEnv
   \<and> fallbackInvocations (snd (speakWithOpenAI exampleEnv (capture exampleSession) exampleSession ''Hello'' NoCallback TtsFetchThrew)) = 1
   \<and> fallbackInvocations (snd (speakWithOpenAI exampleEnv (capture exampleSession) exampleSession ''Hello'' NoCallback TtsNotOk)) = 1
   \<and> fallbackInvocations
        (snd (speakWithOpenAI exampleEnv (capture exampleSession) exampleSession ''Hello'' NoCallback (TtsAudio [AudioError])))
      = length (filter isFailureSignal [AudioError])
   \<and> synthesisQueue [] (snd (speakWithOpenAI exampleEnv (capture exampleSession) exampleSession ''Hello'' NoCallback TtsNotOk))
      = (if attemptFailed TtsNotOk
         then [\<lparr>utteranceText = ''Hello'', utteranceVoice = friendlyVoice (voices exampleEnv)\<rparr>]
         else [])"
proof -
  have a: "speechSynthesisSupported exampleEnv" by (simp add: exampleEnv_def)
  show ?thesis
    using a
      fallback_once_per_failure_signal [OF a, of "capture exampleSession" exampleSession "''Hello''" NoCallback
        "[AudioError]" "[]" TtsNotOk]
    by blast
qed

text \<open>
  C9. When the final transcript of a result batch has a trimmed length below 5, or its
  trimmed lower-case text is one of the noise words, speech capture emits nothing: no
  transcript is published and no command is handed to the dispatcher. The session is
  unchanged apart from the interim text shown while speaking.
\<close>

theorem noise_transcript_emits_no_command:
  assumes "length (trim (finalTranscriptOf resultIndex results)) < 5
           \<or> toLowerCase (trim (finalTranscriptOf resultIndex results)) \<in> set noisePatterns"
  shows "snd (onresult c s resultIndex results) = []
         \<and> fst (onresult c s resultIndex results)
             = (if interimTranscriptOf resultIndex results \<noteq> []
                then s\<lparr>transcript := interimTranscriptOf resultIndex results\<rparr> else s)"
  using assms by (auto simp: onresult_def passesNoiseFilters_def Let_def)

theorem noise_transcript_emits_no_command_witness:
  "(length (trim (finalTranscriptOf 0
       [\<lparr>resultTranscript = '' Hello'', resultIsFinal = True, resultConfidence = Some 1\<rparr>])) < 5
    \<or> toLowerCase (trim (finalTranscriptOf 0
       [\<lparr>resultTranscript = '' Hello'', resultIsFinal = True, resultConfidence = Some 1\<rparr>]))
       \<in> set noisePatterns)
   \<and> snd (onresult (capture exampleSession) exampleSession 0
        [\<lparr>resultTranscript = '' Hello'', resultIsFinal = True, resultConfidence = Some 1\<rparr>]) = []"
proof -
  have a: "length (trim (finalTranscriptOf 0
       [\<lparr>resultTranscript = '' Hello'', resultIsFinal = True, resultConfidence = Some 1\<rparr>])) < 5
    \<or> toLowerCase (trim (finalTranscriptOf 0
       [\<lparr>resultTranscript = '' Hello'', resultIsFinal = True, resultConfidence = Some 1\<rparr>]))
       \<in> set noisePatterns"
    by code_simp
  show ?thesis
    using a noise_transcript_emits_no_command [OF a, of "capture exampleSession" exampleSession] by blast
qed

text \<open>
  C10. A command whose normalised text has fewer than two white-space separated words
  and contains neither "help" nor "stop" is not processed by the dispatcher: nothing is
  executed or spoken and the session state is unchanged. The single word "pipeline" is
  such a command, and it passes the filters of speech capture, which hands it to the
  dispatcher.
\<close>

theorem single_word_command_not_dispatched:
  assumes "length (wsWords (trim (toLowerCase command))) < 2"
    and "\<not> includesStr (trim (toLowerCase command)) ''help''"
    and "\<not> includesStr (trim (toLowerCase command)) ''stop''"
  shows "processVoiceCommand e fetch c s now command = (s, [])
         \<and> snd (onresult (capture exampleSession) exampleSession 0
                  [\<lparr>resultTranscript = ''pipeline'', resultIsFinal = True,
                    resultConfidence = Some (9 / 10)\<rparr>])
             = [PublishData ''pipeline'', ProcessAfterDelay 500 ''pipeline'']"
proof
  have "CHR '' '' \<notin> set (trim (toLowerCase command))"
    using assms(1) by (rule few_words_no_space)
  then have "length (split CHR '' '' (trim (toLowerCase command))) < 2"
    by (simp add: split_no_delim)
  then show "processVoiceCommand e fetch c s now command = (s, [])"
    using assms(2,3) by (rule guard_short)
  show "snd (onresult (capture exampleSession) exampleSession 0
              [\<lparr>resultTranscript = ''pipeline'', resultIsFinal = True,
                resultConfidence = Some (9 / 10)\<rparr>])
        = [PublishData ''pipeline'', ProcessAfterDelay 500 ''pipeline'']"
    by code_simp
qed

theorem single_word_command_not_dispatched_witness:
  "length (wsWords (trim (toLowerCase ''pipeline''))) < 2
   \<and> \<not> includesStr (trim (toLowerCase ''pipeline'')) ''help''
   \<and> \<not> includesStr (trim (toLowerCase ''pipeline'')) ''stop''
   \<and> processVoiceCommand exampleEnv proxiesDown (capture exampleSession) exampleSession 5000 ''pipeline''
      = (exampleSession, [])"
proof -
  have a: "length (wsWords (trim (toLowerCase ''pipeline''))) < 2" by code_simp
  have b: "\<not> includesStr (trim (toLowerCase ''pipeline'')) ''help''" by code_simp
  have c: "\<not> includesStr (trim (toLowerCase ''pipeline'')) ''stop''" by code_simp
  show ?thesis
    using a b c
      single_word_command_not_dispatched [OF a b c, of exampleEnv proxiesDown
        "capture exampleSession" exampleSession 5000]
    by blast
qed


end
